theory Spec2Isabelle
  imports Main "HOL-Library.Sublist" "HOL-Library.AList"
begin

section \<open>Text, lines and outcomes\<close>

text \<open>
  Python's \<open>str\<close> is a sequence of Unicode code points, so a text is a list of
  code points (natural numbers). A file is modelled by the text that Python's text mode
  hands to the script (decoded, with line ends read as \<open>\n\<close>) and by the text the
  script hands back to \<open>write\<close>.
\<close>

type_synonym ustr = "nat list"

definition str :: "string \<Rightarrow> ustr" where
  "str s = map of_char s"

abbreviation LBRACE :: nat where "LBRACE \<equiv> 123"
abbreviation RBRACE :: nat where "RBRACE \<equiv> 125"
abbreviation NL :: nat where "NL \<equiv> 10"

text \<open>\<open>str.isspace\<close> on one code point: the whitespace table of CPython.\<close>

definition py_isspace :: "nat \<Rightarrow> bool" where
  "py_isspace c \<longleftrightarrow>
     (9 \<le> c \<and> c \<le> 13) \<or> (28 \<le> c \<and> c \<le> 32) \<or> c = 133 \<or> c = 160 \<or> c = 5760 \<or>
     (8192 \<le> c \<and> c \<le> 8202) \<or> c = 8232 \<or> c = 8233 \<or> c = 8239 \<or> c = 8287 \<or> c = 12288"

text \<open>\<open>s.strip()\<close>: whitespace removed at both ends.\<close>

definition strip :: "ustr \<Rightarrow> ustr" where
  "strip s = rev (dropWhile py_isspace (rev (dropWhile py_isspace s)))"

text \<open>\<open>f.readlines()\<close>: the text cut after every \<open>\n\<close>, each line keeping its
  terminator; the last line has none when the text does not end in \<open>\n\<close>.\<close>

fun readlines :: "ustr \<Rightarrow> ustr list" where
  "readlines [] = []"
| "readlines (c # cs) =
     (if c = NL then [NL] # readlines cs
      else (case readlines cs of [] \<Rightarrow> [[c]] | l # ls \<Rightarrow> (c # l) # ls))"

text \<open>\<open>content.split('\n')\<close>: the pieces between the \<open>\n\<close>, never an empty list.\<close>

fun split_nl :: "ustr \<Rightarrow> ustr list" where
  "split_nl [] = [[]]"
| "split_nl (c # cs) =
     (if c = NL then [] # split_nl cs
      else (case split_nl cs of [] \<Rightarrow> [[c]] | l # ls \<Rightarrow> (c # l) # ls))"

text \<open>\<open>'\n'.join(lines)\<close>.\<close>

fun join_nl :: "ustr list \<Rightarrow> ustr" where
  "join_nl [] = []"
| "join_nl [l] = l"
| "join_nl (l # ls) = l @ NL # join_nl ls"

text \<open>
  How a script ends: it runs to its last statement (exit status 0), having written the
  file or not; it calls \<open>exit(n)\<close>; or an exception escapes. In these scripts every
  \<open>exit\<close> and every exception comes before the file is opened for writing.
\<close>

datatype py_error = KeyError | TypeError | AttributeError

datatype 'a outcome = Completed "'a option" | Exited nat | Raised py_error

fun written :: "'a outcome \<Rightarrow> 'a option" where
  "written (Completed w) = w"
| "written (Exited n) = None"
| "written (Raised e) = None"

fun exit_status :: "'a outcome \<Rightarrow> nat" where
  "exit_status (Completed w) = 0"
| "exit_status (Exited n) = n"
| "exit_status (Raised e) = 1"

definition file_after :: "'a \<Rightarrow> 'a outcome \<Rightarrow> 'a" where
  "file_after content r = (case written r of None \<Rightarrow> content | Some w \<Rightarrow> w)"

section \<open>The brace fixers\<close>

text \<open>
  The lines whose stripped content is exactly \<open>}\<close>, and the inner loop both fixers
  share: \<open>for j in range(len(lines) - 1, -1, -1)\<close>, popping the first such line it
  meets and stopping there. \<open>search_down (Suc j) lines\<close> is the loop about to look
  at index \<open>j\<close>.
\<close>

definition lone_close :: "ustr \<Rightarrow> bool" where
  "lone_close line \<longleftrightarrow> strip line = [RBRACE]"

fun search_down :: "nat \<Rightarrow> ustr list \<Rightarrow> ustr list" where
  "search_down 0 lines = lines"
| "search_down (Suc j) lines =
     (if lone_close (lines ! j) then take j lines @ drop (Suc j) lines
      else search_down j lines)"

text \<open>The outer loop, \<open>for _ in range(diff)\<close>.\<close>

fun remove_surplus :: "nat \<Rightarrow> ustr list \<Rightarrow> ustr list" where
  "remove_surplus 0 lines = lines"
| "remove_surplus (Suc n) lines = remove_surplus n (search_down (length lines) lines)"

subsection \<open>analyze_and_fix.py\<close>

text \<open>
  The audit loop over \<open>enumerate(lines, 1)\<close>. An error message is determined by the
  line number and the level it reports, so the list of errors is a list of such pairs.
\<close>

fun audit_loop :: "nat \<Rightarrow> ustr list \<Rightarrow> int \<Rightarrow> (nat \<times> int) list \<Rightarrow> int \<times> (nat \<times> int) list" where
  "audit_loop i [] brace_level errors = (brace_level, errors)"
| "audit_loop i (line # rest) brace_level errors =
     (let open_count = count_list line LBRACE;
          close_count = count_list line RBRACE;
          brace_level' = brace_level + (int open_count - int close_count)
      in audit_loop (Suc i) rest brace_level'
           (if brace_level' < 0 then errors @ [(i, brace_level')] else errors))"

definition audit :: "ustr \<Rightarrow> int \<times> (nat \<times> int) list" where
  "audit content = audit_loop 1 (readlines content) 0 []"

definition analyze_and_fix :: "ustr \<Rightarrow> ustr outcome" where
  "analyze_and_fix content =
     (let lines = readlines content;
          brace_level = fst (audit content)
      in if brace_level \<noteq> 0 then
           (if brace_level < 0
            then Completed (Some (concat (remove_surplus (nat (- brace_level)) lines)))
            else Completed (Some (concat (lines @ [concat (replicate (nat brace_level) [RBRACE, NL])]))))
         else Completed None)"

subsection \<open>fix_complete.py\<close>

definition fix_complete :: "ustr \<Rightarrow> ustr outcome" where
  "fix_complete content =
     (let open_braces = count_list content LBRACE;
          close_braces = count_list content RBRACE
      in if close_braces > open_braces then
           Completed (Some (join_nl (remove_surplus (close_braces - open_braces) (split_nl content))))
         else if open_braces > close_braces then
           Completed (Some (content @ NL # concat (replicate (open_braces - close_braces) [RBRACE, NL])))
         else Completed (Some content))"

section \<open>The config pruner (clean_recent.py)\<close>

text \<open>
  The document is modelled as the value \<open>json.load\<close> returns and \<open>json.dump\<close> is
  given: a dictionary is the list of its keys and values in their order (keys distinct,
  as in every Python dictionary); floats stay opaque. Every exception of the script is
  raised before the file is opened for writing.
\<close>

typedecl py_float

datatype json =
    JNull
  | JBool bool
  | JInt int
  | JFloat py_float
  | JStr ustr
  | JArr "json list"
  | JObj "(ustr \<times> json) list"

definition RECENT_FOLDERS :: ustr where
  "RECENT_FOLDERS = str ''recent_folders''"

definition PATH :: ustr where
  "PATH = str ''path''"

definition TEST_PATH :: ustr where
  "TEST_PATH = str ''/test/path''"

text \<open>\<open>v[key]\<close> with a string key: only a dictionary takes one.\<close>

fun subscript :: "json \<Rightarrow> ustr \<Rightarrow> py_error + json" where
  "subscript (JObj kvs) key = (case map_of kvs key of None \<Rightarrow> Inl KeyError | Some v \<Rightarrow> Inr v)"
| "subscript v key = Inl TypeError"

text \<open>
  What \<open>len(v)\<close> accepts and \<open>for folder in v\<close> runs through: the elements of a list,
  the keys of a dictionary, the characters of a string.
\<close>

fun iter_items :: "json \<Rightarrow> py_error + json list" where
  "iter_items (JArr xs) = Inr xs"
| "iter_items (JObj kvs) = Inr (map (\<lambda>kv. JStr (fst kv)) kvs)"
| "iter_items (JStr s) = Inr (map (\<lambda>c. JStr [c]) s)"
| "iter_items v = Inl TypeError"

text \<open>\<open>folder['path'].startswith('/test/path')\<close>: only a string has \<open>startswith\<close>.\<close>

definition is_test_path :: "json \<Rightarrow> py_error + bool" where
  "is_test_path folder =
     (case subscript folder PATH of
        Inl e \<Rightarrow> Inl e
      | Inr (JStr p) \<Rightarrow> Inr (prefix TEST_PATH p)
      | Inr v \<Rightarrow> Inl AttributeError)"

text \<open>The list comprehension; the first folder that raises ends it.\<close>

fun keep_folders :: "json list \<Rightarrow> py_error + json list" where
  "keep_folders [] = Inr []"
| "keep_folders (folder # rest) =
     (case is_test_path folder of
        Inl e \<Rightarrow> Inl e
      | Inr t \<Rightarrow>
          (case keep_folders rest of
             Inl e \<Rightarrow> Inl e
           | Inr kept \<Rightarrow> Inr (if \<not> t then folder # kept else kept)))"

definition clean_recent :: "json \<Rightarrow> json outcome" where
  "clean_recent data =
     (case subscript data RECENT_FOLDERS of
        Inl e \<Rightarrow> Raised e
      | Inr v \<Rightarrow>
          (case iter_items v of
             Inl e \<Rightarrow> Raised e
           | Inr folders \<Rightarrow>
               (case keep_folders folders of
                  Inl e \<Rightarrow> Raised e
                | Inr kept \<Rightarrow>
                    (case data of
                       JObj kvs \<Rightarrow>
                         Completed (Some (JObj (AList.update RECENT_FOLDERS (JArr kept) kvs)))
                     | _ \<Rightarrow> Raised TypeError))))"

section \<open>The brace-depth-based rebuilder (rebuild_favorites_section.py)\<close>

definition ln :: "ustr \<Rightarrow> ustr" where
  "ln s = s @ [NL]"

definition MARKER :: ustr where
  "MARKER = str ''for fav in root.favorites : Rectangle {''"

text \<open>\<open>sub in line\<close>.\<close>

fun contains :: "ustr \<Rightarrow> ustr \<Rightarrow> bool" where
  "contains sub [] = (sub = [])"
| "contains sub (c # cs) = (prefix sub (c # cs) \<or> contains sub cs)"

text \<open>The first loop, over \<open>enumerate(lines)\<close>, from index \<open>i\<close> on.\<close>

fun find_start :: "nat \<Rightarrow> ustr list \<Rightarrow> nat option" where
  "find_start i [] = None"
| "find_start i (line # rest) =
     (if contains MARKER line then Some i else find_start (Suc i) rest)"

text \<open>
  The second loop, \<open>for i in range(start_idx, len(lines))\<close>, at index \<open>i\<close> with the
  lines from \<open>i\<close> on still to read.
\<close>

fun find_end :: "nat \<Rightarrow> nat \<Rightarrow> int \<Rightarrow> ustr list \<Rightarrow> nat option" where
  "find_end start_idx i brace_count [] = None"
| "find_end start_idx i brace_count (line # rest) =
     (let brace_count' = brace_count + (int (count_list line LBRACE) - int (count_list line RBRACE))
      in if brace_count' = 0 \<and> i > start_idx then Some i
         else find_end start_idx (Suc i) brace_count' rest)"

definition new_section :: ustr where
  "new_section =
   concat
        [ln (str ''                                for fav in root.favorites : Rectangle {''),
         ln (str ''                                    height: 36px;''),
         ln (str ''                                    background: fav-touch.has-hover ? (root.dark-mode ? #383838 : #f0f0f0) : transparent;''),
         ln (str ''                                    border-radius: 4px;''),
         ln (str ''                                    ''),
         ln (str ''                                    HorizontalLayout {''),
         ln (str ''                                        padding-left: 8px;''),
         ln (str ''                                        padding-right: 8px;''),
         ln (str ''                                        spacing: 8px;''),
         ln (str ''                                        ''),
         ln (str ''                                        Text {''),
         ln (str ''                                            text: '' @ [34, 11088, 34] @ str '';''),
         ln (str ''                                            font-family: '' @ [34] @ str ''Segoe UI Emoji'' @ [34] @ str '';''),
         ln (str ''                                            font-size: 14px;''),
         ln (str ''                                            vertical-alignment: center;''),
         ln (str ''                                        }''),
         ln (str ''                                        ''),
         ln (str ''                                        VerticalLayout {''),
         ln (str ''                                            spacing: 2px;''),
         ln (str ''                                            horizontal-stretch: 1;''),
         ln (str ''                                            ''),
         ln (str ''                                            Text {''),
         ln (str ''                                                text: fav.name;''),
         ln (str ''                                                color: root.dark-mode ? #ffffff : #111111;''),
         ln (str ''                                                font-size: 12px;''),
         ln (str ''                                                font-weight: 600;''),
         ln (str ''                                                overflow: elide;''),
         ln (str ''                                            }''),
         ln (str ''                                            ''),
         ln (str ''                                            Text {''),
         ln (str ''                                                text: fav.path;''),
         ln (str ''                                                color: root.dark-mode ? #999999 : #666666;''),
         ln (str ''                                                font-size: 10px;''),
         ln (str ''                                                overflow: elide;''),
         ln (str ''                                            }''),
         ln (str ''                                        }''),
         ln (str ''                                        ''),
         ln (str ''                                        Rectangle {''),
         ln (str ''                                            width: 24px;''),
         ln (str ''                                            height: 24px;''),
         ln (str ''                                            border-radius: 4px;''),
         ln (str ''                                            background: remove-touch.has-hover ? (root.dark-mode ? #ff4444 : #ffcccc) : transparent;''),
         ln (str ''                                            ''),
         ln (str ''                                            Text {''),
         ln (str ''                                                text: '' @ [34, 128465, 65039, 34] @ str '';''),
         ln (str ''                                                font-family: '' @ [34] @ str ''Segoe UI Emoji'' @ [34] @ str '';''),
         ln (str ''                                                font-size: 12px;''),
         ln (str ''                                                vertical-alignment: center;''),
         ln (str ''                                                horizontal-alignment: center;''),
         ln (str ''                                            }''),
         ln (str ''                                            ''),
         ln (str ''                                            remove-touch := TouchArea {''),
         ln (str ''                                                mouse-cursor: pointer;''),
         ln (str ''                                                clicked => { ''),
         ln (str ''                                                    root.remove-from-favorites(fav.path);''),
         ln (str ''                                                }''),
         ln (str ''                                            }''),
         ln (str ''                                        }''),
         ln (str ''                                    }''),
         ln (str ''                                    ''),
         ln (str ''                                    fav-touch := TouchArea {''),
         ln (str ''                                        mouse-cursor: pointer;''),
         ln (str ''                                        clicked => { ''),
         ln (str ''                                            root.select-favorite(fav.path);''),
         ln (str ''                                            root.favorites-visible = false;''),
         ln (str ''                                        }''),
         ln (str ''                                    }''),
         ln (str ''                                }'')]"

definition rebuild_lines :: "ustr list \<Rightarrow> ustr outcome" where
  "rebuild_lines lines =
     (case find_start 0 lines of
        None \<Rightarrow> Exited 1
      | Some start_idx \<Rightarrow>
          (case find_end start_idx start_idx 0 (drop start_idx lines) of
             None \<Rightarrow> Exited 1
           | Some end_idx \<Rightarrow>
               Completed (Some (concat
                 (take start_idx lines @ [new_section] @ drop (Suc end_idx) lines)))))"

definition rebuild_favorites_section :: "ustr \<Rightarrow> ustr outcome" where
  "rebuild_favorites_section content = rebuild_lines (readlines content)"

section \<open>The regex scripts (fix_favorites.py, fix_final.py)\<close>

text \<open>
  The two patterns use literal characters, \<open>\s+\<close>, the lazy repetitions \<open>[^}]*?\<close> and
  \<open>.*?\<close> (with \<open>re.DOTALL\<close>, so \<open>.\<close> is any character), three groups and one
  lookahead that closes its pattern. A pattern is the list of its atoms; a group
  boundary, and the place where the closing lookahead begins, is a mark that records the
  position reached.
\<close>

datatype cls = AnyChar | NotChar nat | Space

fun in_cls :: "cls \<Rightarrow> nat \<Rightarrow> bool" where
  "in_cls AnyChar c = True"
| "in_cls (NotChar d) c = (c \<noteq> d)"
| "in_cls Space c = py_isspace c"

datatype atom = Chr nat | Plus cls | Star cls | LazyStar cls | Mark nat

text \<open>
  The backtracking matcher, anchored at the head of \<open>s\<close>: \<open>pos\<close> characters are
  consumed so far. A lazy repetition first tries to go on with the rest of the pattern
  and takes one more character only when that fails; a greedy one takes characters first
  and gives them back one by one. The result is the first match in that order: the
  position reached and the marks.
\<close>

fun rmatch :: "atom list \<Rightarrow> ustr \<Rightarrow> nat \<Rightarrow> (nat \<times> nat) list \<Rightarrow> (nat \<times> (nat \<times> nat) list) option" where
  "rmatch [] s pos marks = Some (pos, marks)"
| "rmatch (Chr c # rest) s pos marks =
     (case s of [] \<Rightarrow> None
      | x # xs \<Rightarrow> if x = c then rmatch rest xs (Suc pos) marks else None)"
| "rmatch (Mark k # rest) s pos marks = rmatch rest s pos ((k, pos) # marks)"
| "rmatch (LazyStar c # rest) s pos marks =
     (case rmatch rest s pos marks of
        Some r \<Rightarrow> Some r
      | None \<Rightarrow>
          (case s of [] \<Rightarrow> None
           | x # xs \<Rightarrow> if in_cls c x then rmatch (LazyStar c # rest) xs (Suc pos) marks else None))"
| "rmatch (Star c # rest) s pos marks =
     (case s of [] \<Rightarrow> rmatch rest s pos marks
      | x # xs \<Rightarrow>
          if in_cls c x then
            (case rmatch (Star c # rest) xs (Suc pos) marks of
               Some r \<Rightarrow> Some r
             | None \<Rightarrow> rmatch rest s pos marks)
          else rmatch rest s pos marks)"
| "rmatch (Plus c # rest) s pos marks =
     (case s of [] \<Rightarrow> None
      | x # xs \<Rightarrow> if in_cls c x then rmatch (Star c # rest) xs (Suc pos) marks else None)"

definition mark_at :: "(nat \<times> nat) list \<Rightarrow> nat \<Rightarrow> nat" where
  "mark_at marks k = (case map_of marks k of Some p \<Rightarrow> p | None \<Rightarrow> 0)"

text \<open>
  \<open>re.sub(pattern, repl, s)\<close>: the matches are looked for from left to right, one after
  the end of the other; what lies between them is copied. \<open>m s\<close> is the match at the
  head of \<open>s\<close>, as the number of characters it covers and the text that replaces them.
  Both patterns begin with literal text, so neither matches the empty string, and the
  branch for an empty match (the replacement, then the next character copied) is never
  taken.
\<close>

fun re_sub :: "(ustr \<Rightarrow> (nat \<times> ustr) option) \<Rightarrow> ustr \<Rightarrow> ustr" where
  "re_sub m [] = (case m [] of None \<Rightarrow> [] | Some (n, r) \<Rightarrow> r)"
| "re_sub m (x # xs) =
     (case m (x # xs) of
        None \<Rightarrow> x # re_sub m xs
      | Some (n, r) \<Rightarrow>
          if n = 0 then r @ x # re_sub m xs
          else r @ re_sub m (drop n (x # xs)))"

definition lit :: "string \<Rightarrow> atom list" where
  "lit s = map (\<lambda>c. Chr (of_char c)) s"

subsection \<open>fix_favorites.py\<close>

text \<open>
  The pattern \<^verbatim>\<open>(for fav in root\.favorites : Rectangle \{[^}]*?\n\s+HorizontalLayout \{)(.*?)(\n\s+\}\n\s+\})\<close>:
  mark 1 is the end of group 1, mark 2 the start of group 3. The replacement is
  group 1, the fixed text, group 3.
\<close>

definition pattern_favorites :: "atom list" where
  "pattern_favorites =
     lit ''for fav in root.favorites : Rectangle {'' @
     [LazyStar (NotChar RBRACE), Chr NL, Plus Space] @
     lit ''HorizontalLayout {'' @
     [Mark 1, LazyStar AnyChar, Mark 2,
      Chr NL, Plus Space, Chr RBRACE, Chr NL, Plus Space, Chr RBRACE]"

definition replacement_body :: ustr where
  "replacement_body =
   concat
        [ln ([]),
         ln (str ''                                        padding-left: 8px;''),
         ln (str ''                                        padding-right: 8px;''),
         ln (str ''                                        spacing: 8px;''),
         ln (str ''                                        ''),
         ln (str ''                                        Text {''),
         ln (str ''                                            text: '' @ [34, 11088, 34] @ str '';''),
         ln (str ''                                            font-family: '' @ [34] @ str ''Segoe UI Emoji'' @ [34] @ str '';''),
         ln (str ''                                            font-size: 14px;''),
         ln (str ''                                            vertical-alignment: center;''),
         ln (str ''                                        }''),
         ln (str ''                                        ''),
         ln (str ''                                        VerticalLayout {''),
         ln (str ''                                            spacing: 2px;''),
         ln (str ''                                            horizontal-stretch: 1;''),
         ln (str ''                                            ''),
         ln (str ''                                            Text {''),
         ln (str ''                                                text: fav.name;''),
         ln (str ''                                                color: root.dark-mode ? #ffffff : #111111;''),
         ln (str ''                                                font-size: 12px;''),
         ln (str ''                                                font-weight: 600;''),
         ln (str ''                                                overflow: elide;''),
         ln (str ''                                            }''),
         ln (str ''                                            ''),
         ln (str ''                                            Text {''),
         ln (str ''                                                text: fav.path;''),
         ln (str ''                                                color: root.dark-mode ? #999999 : #666666;''),
         ln (str ''                                                font-size: 10px;''),
         ln (str ''                                                overflow: elide;''),
         ln (str ''                                            }''),
         ln (str ''                                        }''),
         ln (str ''                                        ''),
         ln (str ''                                        Rectangle {''),
         ln (str ''                                            width: 24px;''),
         ln (str ''                                            height: 24px;''),
         ln (str ''                                            border-radius: 4px;''),
         ln (str ''                                            background: remove-touch.has-hover ? (root.dark-mode ? #ff4444 : #ffcccc) : transparent;''),
         ln (str ''                                            ''),
         ln (str ''                                            Text {''),
         ln (str ''                                                text: '' @ [34, 128465, 65039, 34] @ str '';''),
         ln (str ''                                                font-family: '' @ [34] @ str ''Segoe UI Emoji'' @ [34] @ str '';''),
         ln (str ''                                                font-size: 12px;''),
         ln (str ''                                                vertical-alignment: center;''),
         ln (str ''                                                horizontal-alignment: center;''),
         ln (str ''                                            }''),
         ln (str ''                                            ''),
         ln (str ''                                            remove-touch := TouchArea {''),
         ln (str ''                                                mouse-cursor: pointer;''),
         ln (str ''                                                clicked => { ''),
         ln (str ''                                                    root.remove-from-favorites(fav.path);''),
         ln (str ''                                                }''),
         ln (str ''                                            }''),
         ln (str ''                                        }''),
         ln (str ''                                    }''),
         ln (str ''                                    ''),
         ln (str ''                                    fav-touch := TouchArea {''),
         ln (str ''                                        mouse-cursor: pointer;''),
         ln (str ''                                        clicked => { ''),
         ln (str ''                                            root.select-favorite(fav.path);''),
         ln (str ''                                            root.favorites-visible = false;''),
         ln (str ''                                        }''),
         str ''                                    }'']"

definition match_favorites :: "ustr \<Rightarrow> (nat \<times> ustr) option" where
  "match_favorites s =
     (case rmatch pattern_favorites s 0 [] of
        None \<Rightarrow> None
      | Some (e, marks) \<Rightarrow>
          Some (e, take (mark_at marks 1) s @ replacement_body @ drop (mark_at marks 2) (take e s)))"

definition fix_favorites :: "ustr \<Rightarrow> ustr outcome" where
  "fix_favorites content = Completed (Some (re_sub match_favorites content))"

subsection \<open>fix_final.py\<close>

text \<open>
  The pattern is \<open>for fav in root\.favorites : Rectangle \{.*?\<close> followed by the
  lookahead for \<open>\n\s+\}\s+\n\s+\<close> and the comment \<open>// S.parateur\<close>, whose fifth
  character is code point 233. The lookahead closes the pattern, so the match ends
  where the lookahead begins, at mark 0.
\<close>

definition pattern_final :: "atom list" where
  "pattern_final =
     lit ''for fav in root.favorites : Rectangle {'' @
     [LazyStar AnyChar, Mark 0,
      Chr NL, Plus Space, Chr RBRACE, Plus Space, Chr NL, Plus Space] @
     lit ''// S'' @ [Chr 233] @ lit ''parateur''"

definition new_favorites_section :: ustr where
  "new_favorites_section =
   concat
        [ln (str ''for fav in root.favorites : Rectangle {''),
         ln (str ''                                    height: 36px;''),
         ln (str ''                                    background: fav-touch.has-hover ? (root.dark-mode ? #383838 : #f0f0f0) : transparent;''),
         ln (str ''                                    border-radius: 4px;''),
         ln (str ''                                    ''),
         ln (str ''                                    HorizontalLayout {''),
         ln (str ''                                        padding-left: 8px;''),
         ln (str ''                                        padding-right: 8px;''),
         ln (str ''                                        spacing: 8px;''),
         ln (str ''                                        ''),
         ln (str ''                                        Text {''),
         ln (str ''                                            text: '' @ [34, 11088, 34] @ str '';''),
         ln (str ''                                            font-family: '' @ [34] @ str ''Segoe UI Emoji'' @ [34] @ str '';''),
         ln (str ''                                            font-size: 14px;''),
         ln (str ''                                            vertical-alignment: center;''),
         ln (str ''                                        }''),
         ln (str ''                                        ''),
         ln (str ''                                        VerticalLayout {''),
         ln (str ''                                            spacing: 2px;''),
         ln (str ''                                            horizontal-stretch: 1;''),
         ln (str ''                                            ''),
         ln (str ''                                            Text {''),
         ln (str ''                                                text: fav.name;''),
         ln (str ''                                                color: root.dark-mode ? #ffffff : #111111;''),
         ln (str ''                                                font-size: 12px;''),
         ln (str ''                                                font-weight: 600;''),
         ln (str ''                                                overflow: elide;''),
         ln (str ''                                            }''),
         ln (str ''                                            ''),
         ln (str ''                                            Text {''),
         ln (str ''                                                text: fav.path;''),
         ln (str ''                                                color: root.dark-mode ? #999999 : #666666;''),
         ln (str ''                                                font-size: 10px;''),
         ln (str ''                                                overflow: elide;''),
         ln (str ''                                            }''),
         ln (str ''                                        }''),
         ln (str ''                                        ''),
         ln (str ''                                        Rectangle {''),
         ln (str ''                                            width: 24px;''),
         ln (str ''                                            height: 24px;''),
         ln (str ''                                            border-radius: 4px;''),
         ln (str ''                                            background: remove-touch.has-hover ? (root.dark-mode ? #ff4444 : #ffcccc) : transparent;''),
         ln (str ''                                            ''),
         ln (str ''                                            Text {''),
         ln (str ''                                                text: '' @ [34, 128465, 65039, 34] @ str '';''),
         ln (str ''                                                font-family: '' @ [34] @ str ''Segoe UI Emoji'' @ [34] @ str '';''),
         ln (str ''                                                font-size: 12px;''),
         ln (str ''                                                vertical-alignment: center;''),
         ln (str ''                                                horizontal-alignment: center;''),
         ln (str ''                                            }''),
         ln (str ''                                            ''),
         ln (str ''                                            remove-touch := TouchArea {''),
         ln (str ''                                                mouse-cursor: pointer;''),
         ln (str ''                                                clicked => { ''),
         ln (str ''                                                    root.remove-from-favorites(fav.path);''),
         ln (str ''                                                }''),
         ln (str ''                                            }''),
         ln (str ''                                        }''),
         ln (str ''                                    }''),
         ln (str ''                                    ''),
         ln (str ''                                    fav-touch := TouchArea {''),
         ln (str ''                                        mouse-cursor: pointer;''),
         ln (str ''                                        clicked => { ''),
         ln (str ''                                            root.select-favorite(fav.path);''),
         ln (str ''                                            root.favorites-visible = false;''),
         ln (str ''                                        }''),
         ln (str ''                                    }''),
         ln (str ''                                }''),
         str ''                            '']"

definition match_final :: "ustr \<Rightarrow> (nat \<times> ustr) option" where
  "match_final s =
     (case rmatch pattern_final s 0 [] of
        None \<Rightarrow> None
      | Some (e, marks) \<Rightarrow> Some (mark_at marks 0, new_favorites_section))"

definition fix_final :: "ustr \<Rightarrow> ustr outcome" where
  "fix_final content = Completed (Some (re_sub match_final content))"

section \<open>Notions the properties are stated with\<close>

text \<open>
  The file a script leaves behind: what it wrote, or the old content when it wrote
  nothing.
\<close>

definition run :: "('a \<Rightarrow> 'a outcome) \<Rightarrow> 'a \<Rightarrow> 'a" where
  "run script content = file_after content (script content)"

text \<open>
  The change of nesting depth over one line, and the running depth after the first
  \<open>i\<close> lines.
\<close>

definition delta :: "ustr \<Rightarrow> int" where
  "delta line = int (count_list line LBRACE) - int (count_list line RBRACE)"

definition depth_after :: "ustr list \<Rightarrow> nat \<Rightarrow> int" where
  "depth_after lines i = sum_list (map delta (take i lines))"

text \<open>
  The number of lines whose stripped content is \<open>}\<close>, the surplus of closing braces
  of a text (zero when there is none), and the indices of the last \<open>n\<close> lines whose
  stripped content is \<open>}\<close>: such a line belongs to them when fewer than \<open>n\<close> such
  lines come after it.
\<close>

definition lones :: "ustr list \<Rightarrow> nat" where
  "lones lines = length (filter lone_close lines)"

definition surplus :: "ustr \<Rightarrow> nat" where
  "surplus content = count_list content RBRACE - count_list content LBRACE"

definition deleted :: "nat \<Rightarrow> ustr list \<Rightarrow> nat set" where
  "deleted n lines =
     {j \<in> {..<length lines}. lone_close (lines ! j) \<and>
        length (filter lone_close (drop (Suc j) lines)) < n}"

text \<open>
  The path of a folder record (a dictionary whose \<open>path\<close> is a string), and the
  records the blocklist prefix \<open>/test/path\<close> matches.
\<close>

fun path_of :: "json \<Rightarrow> ustr option" where
  "path_of (JObj fields) = (case map_of fields PATH of Some (JStr p) \<Rightarrow> Some p | _ \<Rightarrow> None)"
| "path_of v = None"

definition blocked :: "json \<Rightarrow> bool" where
  "blocked folder = (case path_of folder of Some p \<Rightarrow> prefix TEST_PATH p | None \<Rightarrow> False)"

text \<open>
  The running brace depth summed from line \<open>s\<close> through line \<open>i\<close>.
\<close>

definition depth_from :: "ustr list \<Rightarrow> nat \<Rightarrow> nat \<Rightarrow> int" where
  "depth_from lines s i = sum_list (map delta (take (Suc i - s) (drop s lines)))"

text \<open>
  A pattern has a match in a text when it matches at the head of some suffix of it, the
  empty suffix included (\<open>re.search\<close> finds something).
\<close>

fun has_match :: "atom list \<Rightarrow> ustr \<Rightarrow> bool" where
  "has_match p [] = (rmatch p [] 0 [] \<noteq> None)"
| "has_match p (x # xs) = (rmatch p (x # xs) 0 [] \<noteq> None \<or> has_match p xs)"

section \<open>Lines and counts\<close>

lemma file_after_simps [simp]:
  "file_after c (Completed None) = c"
  "file_after c (Completed (Some w)) = w"
  "file_after c (Exited n) = c"
  "file_after c (Raised e) = c"
  by (simp_all add: file_after_def)

lemma concat_readlines: "concat (readlines s) = s"
  by (induction s) (auto split: list.splits)

lemma split_nl_not_Nil: "split_nl s \<noteq> []"
  by (induction s) (auto split: list.splits)

lemma join_nl_Cons: "ls \<noteq> [] \<Longrightarrow> join_nl (l # ls) = l @ NL # join_nl ls"
  by (cases ls) auto

lemma join_split_nl: "join_nl (split_nl s) = s"
proof (induction s)
  case Nil
  show ?case by simp
next
  case (Cons c cs)
  show ?case
  proof (cases "c = NL")
    case True
    with Cons show ?thesis by (simp add: join_nl_Cons split_nl_not_Nil)
  next
    case False
    obtain l ls where sp: "split_nl cs = l # ls"
      using split_nl_not_Nil [of cs] by (cases "split_nl cs") auto
    show ?thesis
    proof (cases ls)
      case Nil
      with False sp Cons show ?thesis by simp
    next
      case (Cons a as)
      with False sp Cons.IH show ?thesis by simp
    qed
  qed
qed

lemma depth_after_Cons: "depth_after (l # ls) (Suc k) = delta l + depth_after ls k"
  by (simp add: depth_after_def)

lemma depth_after_0: "depth_after ls 0 = 0"
  by (simp add: depth_after_def)

lemma map_filter_concat: "map f (filter P xs) = concat (map (\<lambda>x. if P x then [f x] else []) xs)"
  by (induction xs) auto

lemma audit_loop_gen:
  "audit_loop i ls b errs =
     (b + sum_list (map delta ls),
      errs @ map (\<lambda>k. (i + k, b + depth_after ls (Suc k)))
               (filter (\<lambda>k. b + depth_after ls (Suc k) < 0) [0..<length ls]))"
proof (induction ls arbitrary: i b errs)
  case Nil
  show ?case by simp
next
  case (Cons l ls)
  have upt: "[0..<length (l # ls)] = 0 # map Suc [0..<length ls]"
    by (simp add: upt_conv_Cons map_Suc_upt del: upt_Suc)
  have d0: "depth_after (l # ls) (Suc 0) = delta l"
    by (simp add: depth_after_def)
  show ?case
    unfolding upt
    by (simp add: Cons.IH Let_def depth_after_Cons depth_after_0 d0 filter_map o_def add.assoc delta_def [symmetric])
qed

lemma sum_delta: "sum_list (map delta ls) = int (count_list (concat ls) LBRACE) - int (count_list (concat ls) RBRACE)"
  by (induction ls) (auto simp: delta_def)

lemma audit_level: "fst (audit content) = int (count_list content LBRACE) - int (count_list content RBRACE)"
  by (simp add: audit_def audit_loop_gen sum_delta concat_readlines)

lemma search_down_append:
  "j \<le> length xs \<Longrightarrow> search_down j (xs @ ys) = search_down j xs @ ys"
  by (induction j) (auto simp: nth_append)

lemma search_down_snoc:
  "search_down (length (xs @ [x])) (xs @ [x]) =
     (if lone_close x then xs else search_down (length xs) xs @ [x])"
  by (simp add: search_down_append)

lemma remove_surplus_snoc:
  "remove_surplus (Suc n) (xs @ [x]) =
     (if lone_close x then remove_surplus n xs else remove_surplus (Suc n) xs @ [x])"
proof (induction n arbitrary: xs)
  case 0
  show ?case using search_down_snoc [of xs x] by simp
next
  case (Suc n)
  have unfold: "\<And>ys. remove_surplus (Suc (Suc n)) ys = remove_surplus (Suc n) (search_down (length ys) ys)"
    by (simp only: remove_surplus.simps)
  show ?case
  proof (cases "lone_close x")
    case True
    then show ?thesis
      by (simp only: unfold [of "xs @ [x]"] search_down_snoc if_True)
  next
    case False
    have "remove_surplus (Suc (Suc n)) (xs @ [x]) =
            remove_surplus (Suc n) (search_down (length xs) xs @ [x])"
      using False by (simp only: unfold [of "xs @ [x]"] search_down_snoc if_False)
    also have "\<dots> = remove_surplus (Suc n) (search_down (length xs) xs) @ [x]"
      using False by (simp only: Suc.IH if_False)
    also have "\<dots> = remove_surplus (Suc (Suc n)) xs @ [x]"
      by (simp only: unfold [of xs])
    finally show ?thesis using False by (simp only: if_False)
  qed
qed

lemma remove_surplus_Nil: "remove_surplus n [] = []"
  by (induction n) simp_all

lemma deleted_0: "deleted 0 ls = {}"
  by (simp add: deleted_def)

lemma deleted_snoc:
  "deleted (Suc n) (xs @ [x]) =
     (if lone_close x then insert (length xs) (deleted n xs) else deleted (Suc n) xs)"
  by (auto simp: deleted_def nth_append less_Suc_eq)

lemma deleted_bound: "j \<in> deleted n ls \<Longrightarrow> j < length ls"
  by (simp add: deleted_def)

lemma nths_cong_below:
  "(\<And>i. i < length xs \<Longrightarrow> i \<in> A \<longleftrightarrow> i \<in> B) \<Longrightarrow> nths xs A = nths xs B"
  unfolding nths_def
  by (rule arg_cong [where f = "map fst"], rule filter_cong) (auto dest: set_zip_rightD)

lemma nths_snoc:
  "nths (xs @ [x]) A = nths xs A @ (if length xs \<in> A then [x] else [])"
  by (simp add: nths_append nths_singleton)

lemma remove_surplus_nths: "remove_surplus n ls = nths ls (- deleted n ls)"
proof (induction ls arbitrary: n rule: rev_induct)
  case Nil
  show ?case by (simp add: remove_surplus_Nil)
next
  case (snoc x xs)
  show ?case
  proof (cases n)
    case 0
    then show ?thesis by (simp add: deleted_0 nths_all)
  next
    case (Suc m)
    show ?thesis
    proof (cases "lone_close x")
      case True
      have "nths xs (- insert (length xs) (deleted m xs)) = nths xs (- deleted m xs)"
        by (rule nths_cong_below) auto
      with True Suc show ?thesis
        by (simp add: remove_surplus_snoc deleted_snoc nths_snoc snoc.IH del: remove_surplus.simps)
    next
      case False
      have "length xs \<notin> deleted (Suc m) xs"
        using deleted_bound [of "length xs" "Suc m" xs] by blast
      with False Suc show ?thesis
        by (simp add: remove_surplus_snoc deleted_snoc nths_snoc snoc.IH del: remove_surplus.simps)
    qed
  qed
qed

lemma finite_deleted: "finite (deleted n ls)"
  by (simp add: deleted_def)

lemma card_deleted: "card (deleted n ls) = min n (length (filter lone_close ls))"
proof (induction ls arbitrary: n rule: rev_induct)
  case Nil
  show ?case by (simp add: deleted_def)
next
  case (snoc x xs)
  show ?case
  proof (cases n)
    case 0
    then show ?thesis by (simp add: deleted_0)
  next
    case (Suc m)
    have "length xs \<notin> deleted m xs"
      using deleted_bound [of "length xs" m xs] by blast
    with Suc show ?thesis
      by (simp add: deleted_snoc snoc.IH finite_deleted)
  qed
qed

lemma deleted_lone: "j \<in> deleted n ls \<Longrightarrow> lone_close (ls ! j)"
  by (simp add: deleted_def)

lemma deleted_last:
  assumes "j \<in> deleted n ls" "j < j'" "j' < length ls" "lone_close (ls ! j')"
  shows "j' \<in> deleted n ls"
proof -
  have "j' - j + Suc j = Suc j'"
    using assms(2) by simp
  then have "drop (j' - j) (drop (Suc j) ls) = drop (Suc j') ls"
    by (simp only: drop_drop)
  then have "drop (Suc j) ls = take (j' - j) (drop (Suc j) ls) @ drop (Suc j') ls"
    using append_take_drop_id [of "j' - j" "drop (Suc j) ls"] by simp
  then have "filter lone_close (drop (Suc j) ls) =
      filter lone_close (take (j' - j) (drop (Suc j) ls)) @ filter lone_close (drop (Suc j') ls)"
    using filter_append [of lone_close "take (j' - j) (drop (Suc j) ls)" "drop (Suc j') ls"] by simp
  then have "length (filter lone_close (drop (Suc j') ls)) \<le> length (filter lone_close (drop (Suc j) ls))"
    by simp
  with assms show ?thesis by (simp add: deleted_def)
qed

lemma count_replicate_close:
  "count_list (concat (replicate n [RBRACE, NL])) RBRACE = n"
  "count_list (concat (replicate n [RBRACE, NL])) LBRACE = 0"
  by (induction n) auto

lemma analyze_and_fix_cases:
  "analyze_and_fix content =
     (if count_list content LBRACE < count_list content RBRACE
      then Completed (Some (concat (remove_surplus (surplus content) (readlines content))))
      else if count_list content RBRACE < count_list content LBRACE
      then Completed (Some (content @ concat (replicate
             (count_list content LBRACE - count_list content RBRACE) [RBRACE, NL])))
      else Completed None)"
proof -
  have n1: "count_list content LBRACE < count_list content RBRACE \<Longrightarrow>
        nat (int (count_list content RBRACE) - int (count_list content LBRACE)) = surplus content"
    by (simp add: surplus_def nat_diff_distrib')
  have n2: "count_list content RBRACE < count_list content LBRACE \<Longrightarrow>
        nat (int (count_list content LBRACE) - int (count_list content RBRACE)) =
          count_list content LBRACE - count_list content RBRACE"
    by (simp add: nat_diff_distrib')
  show ?thesis
    by (auto simp: analyze_and_fix_def audit_level Let_def n1 n2 concat_readlines)
qed

lemma append_path_balanced:
  assumes "count_list content RBRACE < count_list content LBRACE"
  shows "count_list (run analyze_and_fix content) LBRACE = count_list (run analyze_and_fix content) RBRACE"
    and "count_list (run fix_complete content) LBRACE = count_list (run fix_complete content) RBRACE"
  using assms
  by (simp_all add: run_def analyze_and_fix_cases fix_complete_def Let_def count_replicate_close)

section \<open>The comprehension as a filter\<close>

lemma is_test_path_path_of:
  "path_of f = Some p \<Longrightarrow> is_test_path f = Inr (prefix TEST_PATH p)"
  by (cases f) (auto simp: is_test_path_def split: option.splits json.splits)

lemma is_test_path_Inr:
  "is_test_path f = Inr t \<Longrightarrow> \<exists>p. path_of f = Some p \<and> t = prefix TEST_PATH p"
  by (cases f) (auto simp: is_test_path_def split: option.splits json.splits)

lemma keep_folders_filter:
  "\<forall>f\<in>set fs. path_of f \<noteq> None \<Longrightarrow> keep_folders fs = Inr (filter (\<lambda>f. \<not> blocked f) fs)"
proof (induction fs)
  case Nil
  show ?case by simp
next
  case (Cons f fs)
  then obtain p where p: "path_of f = Some p" by auto
  with Cons show ?case
    by (simp add: is_test_path_path_of blocked_def)
qed

lemma keep_folders_Inr:
  "keep_folders fs = Inr kept \<Longrightarrow>
     kept = filter (\<lambda>f. \<not> blocked f) fs \<and> (\<forall>f\<in>set fs. path_of f \<noteq> None)"
proof (induction fs arbitrary: kept)
  case Nil
  then show ?case by simp
next
  case (Cons f fs)
  from Cons.prems obtain t kept' where t: "is_test_path f = Inr t"
    and k: "keep_folders fs = Inr kept'" and r: "kept = (if \<not> t then f # kept' else kept')"
    by (auto split: sum.splits)
  from is_test_path_Inr [OF t] obtain p where p: "path_of f = Some p" "t = prefix TEST_PATH p"
    by blast
  from Cons.IH [OF k] p r show ?case
    by (auto simp: blocked_def)
qed

lemma update_keys: "k \<in> fst ` set al \<Longrightarrow> map fst (AList.update k v al) = map fst al"
  by (induction al) auto

lemma update_frame:
  "i < length al \<Longrightarrow> fst (al ! i) \<noteq> k \<Longrightarrow> AList.update k v al ! i = al ! i"
proof (induction al arbitrary: i)
  case Nil
  then show ?case by simp
next
  case (Cons a al)
  then show ?case by (cases i) auto
qed

section \<open>The two searches of the rebuilder\<close>

lemma find_start_None:
  "\<forall>l\<in>set ls. \<not> contains MARKER l \<Longrightarrow> find_start i ls = None"
  by (induction ls arbitrary: i) auto

lemma find_start_Some:
  "k < length ls \<Longrightarrow> contains MARKER (ls ! k) \<Longrightarrow> \<forall>j<k. \<not> contains MARKER (ls ! j) \<Longrightarrow>
     find_start i ls = Some (i + k)"
proof (induction ls arbitrary: i k)
  case Nil
  then show ?case by simp
next
  case (Cons l ls)
  show ?case
  proof (cases k)
    case 0
    with Cons.prems show ?thesis by simp
  next
    case (Suc k')
    from Cons.prems(3) Suc have l: "\<not> contains MARKER l" by auto
    have "find_start (Suc i) ls = Some (Suc i + k')"
    proof (rule Cons.IH)
      show "k' < length ls" using Cons.prems(1) Suc by simp
      show "contains MARKER (ls ! k')" using Cons.prems(2) Suc by simp
      show "\<forall>j<k'. \<not> contains MARKER (ls ! j)"
      proof (intro allI impI)
        fix j assume "j < k'"
        then have "Suc j < k" using Suc by simp
        with Cons.prems(3) have "\<not> contains MARKER ((l # ls) ! Suc j)" by blast
        then show "\<not> contains MARKER (ls ! j)" by simp
      qed
    qed
    with l Suc show ?thesis by simp
  qed
qed

lemma find_end_Some:
  "k < length ls \<Longrightarrow> bc + sum_list (map delta (take (Suc k) ls)) = 0 \<Longrightarrow> s < i + k \<Longrightarrow>
   \<forall>j<k. s < i + j \<longrightarrow> bc + sum_list (map delta (take (Suc j) ls)) \<noteq> 0 \<Longrightarrow>
     find_end s i bc ls = Some (i + k)"
proof (induction ls arbitrary: i bc k)
  case Nil
  then show ?case by simp
next
  case (Cons l ls)
  show ?case
  proof (cases k)
    case 0
    with Cons.prems show ?thesis by (simp add: delta_def Let_def)
  next
    case (Suc k')
    from Cons.prems(4) [rule_format, of 0] Suc
    have first: "\<not> (bc + delta l = 0 \<and> s < i)" by auto
    have "find_end s (Suc i) (bc + delta l) ls = Some (Suc i + k')"
    proof (rule Cons.IH)
      show "k' < length ls" using Cons.prems(1) Suc by simp
      show "bc + delta l + sum_list (map delta (take (Suc k') ls)) = 0"
        using Cons.prems(2) Suc by (simp add: add.assoc)
      show "s < Suc i + k'" using Cons.prems(3) Suc by simp
      show "\<forall>j<k'. s < Suc i + j \<longrightarrow> bc + delta l + sum_list (map delta (take (Suc j) ls)) \<noteq> 0"
      proof (intro allI impI)
        fix j assume "j < k'" "s < Suc i + j"
        then have "Suc j < k" "s < i + Suc j" using Suc by simp_all
        with Cons.prems(4) have "bc + sum_list (map delta (take (Suc (Suc j)) (l # ls))) \<noteq> 0"
          by blast
        then show "bc + delta l + sum_list (map delta (take (Suc j) ls)) \<noteq> 0"
          by (simp add: add.assoc)
      qed
    qed
    with first Suc show ?thesis by (auto simp: delta_def Let_def)
  qed
qed

lemma find_end_None:
  "\<forall>j<length ls. s < i + j \<longrightarrow> bc + sum_list (map delta (take (Suc j) ls)) \<noteq> 0 \<Longrightarrow>
     find_end s i bc ls = None"
proof (induction ls arbitrary: i bc)
  case Nil
  show ?case by simp
next
  case (Cons l ls)
  from Cons.prems [rule_format, of 0]
  have first: "\<not> (bc + delta l = 0 \<and> s < i)" by auto
  have "find_end s (Suc i) (bc + delta l) ls = None"
  proof (rule Cons.IH, intro allI impI)
    fix j assume "j < length ls" "s < Suc i + j"
    then have "Suc j < length (l # ls)" "s < i + Suc j" by simp_all
    with Cons.prems have "bc + sum_list (map delta (take (Suc (Suc j)) (l # ls))) \<noteq> 0"
      by blast
    then show "bc + delta l + sum_list (map delta (take (Suc j) ls)) \<noteq> 0"
      by (simp add: add.assoc)
  qed
  with first show ?case by (auto simp: delta_def Let_def)
qed

lemma readlines_ln: "NL \<notin> set s \<Longrightarrow> readlines (ln s @ rest) = ln s # readlines rest"
  by (induction s) (auto simp: ln_def)

lemma contains_prefix: "prefix sub s \<Longrightarrow> contains sub s"
  by (cases s) auto

lemma NL_notin_MARKER: "NL \<notin> set MARKER"
  by (simp add: MARKER_def str_def)

lemma delta_ln_MARKER: "delta (ln MARKER) = 1"
  by (simp add: delta_def ln_def MARKER_def str_def)

section \<open>Substitution without and with a match\<close>

lemma re_sub_no_match:
  assumes "\<not> has_match p s" and none: "\<And>t. rmatch p t 0 [] = None \<Longrightarrow> m t = None"
  shows "re_sub m s = s"
  using assms(1)
proof (induction s)
  case Nil
  then have "rmatch p [] 0 [] = None" by (simp del: not_None_eq)
  then have "m [] = None" by (rule none)
  then show ?case by simp
next
  case (Cons x xs)
  from Cons.prems have "rmatch p (x # xs) 0 [] = None" and rest: "\<not> has_match p xs"
    by (simp_all del: not_None_eq)
  then have "m (x # xs) = None" by (intro none)
  with Cons.IH [OF rest] show ?case by simp
qed

lemma match_favorites_None: "rmatch pattern_favorites t 0 [] = None \<Longrightarrow> match_favorites t = None"
  by (simp add: match_favorites_def)

lemma match_final_None: "rmatch pattern_final t 0 [] = None \<Longrightarrow> match_final t = None"
  by (simp add: match_final_def)

lemma rmatch_lit_head:
  "x \<noteq> 102 \<Longrightarrow> rmatch (lit ''for fav in root.favorites : Rectangle {'' @ rest) (x # xs) pos marks = None"
  by (simp add: lit_def)

lemma rmatch_lit_Nil:
  "rmatch (lit ''for fav in root.favorites : Rectangle {'' @ rest) [] pos marks = None"
  by (simp add: lit_def)

lemma fix_final_replaces_example:
  "fix_final (str ''ab for fav in root.favorites : Rectangle {X'' @ [NL] @ str '' }'' @ [NL, 32, NL]
              @ str '' // S'' @ [233] @ str ''parateur'') =
   Completed (Some (str ''ab '' @ new_favorites_section @ [NL] @ str '' }'' @ [NL, 32, NL]
              @ str '' // S'' @ [233] @ str ''parateur''))"
  by (simp add: fix_final_def match_final_def mark_at_def pattern_final_def lit_def str_def
      py_isspace_def)

lemma fix_favorites_replaces_example:
  "fix_favorites (str ''for fav in root.favorites : Rectangle {'' @ [NL] @ str '' HorizontalLayout {old''
              @ [NL, 32, RBRACE, NL, 32, RBRACE, 33]) =
   Completed (Some (str ''for fav in root.favorites : Rectangle {'' @ [NL] @ str '' HorizontalLayout {''
              @ replacement_body @ [NL, 32, RBRACE, NL, 32, RBRACE, 33]))"
  by (simp add: fix_favorites_def match_favorites_def mark_at_def pattern_favorites_def lit_def str_def
      py_isspace_def)

section \<open>Properties of the brace fixers\<close>

text \<open>
  C1. After a brace fixer has run, the file is to hold as many \<open>}\<close> as \<open>{\<close>. The
  path that appends the missing \<open>}\<close> does so (\<open>append_path_balanced\<close>); the path
  that removes a surplus does not always. On the text \<open>}}\<close> the final depth is
  \<open>-2\<close> and the counts differ by two, so both fixers run their removal loop twice;
  no line has stripped content \<open>}\<close>, each search ends without a deletion, and both
  scripts write the text back with two \<open>}\<close> and no \<open>{\<close>.
\<close>

theorem brace_fixers_leave_unbalanced:
  "fst (audit [RBRACE, RBRACE]) \<noteq> 0 \<and>
   analyze_and_fix [RBRACE, RBRACE] = Completed (Some [RBRACE, RBRACE]) \<and>
   count_list [RBRACE, RBRACE] LBRACE \<noteq> count_list [RBRACE, RBRACE] RBRACE \<and>
   fix_complete [RBRACE, RBRACE] = Completed (Some [RBRACE, RBRACE])"
  by (simp add: audit_def analyze_and_fix_def fix_complete_def Let_def
      lone_close_def strip_def py_isspace_def numeral_2_eq_2)

text \<open>
  C5. On a balanced text (final depth zero for the line-by-line fixer, equal counts for
  the whole-file fixer) the fixer leaves the content as it is: the line-by-line fixer
  writes nothing, the whole-file fixer writes the content back. A second run then
  starts from the same content and leaves it unchanged again.
\<close>

theorem balanced_unchanged:
  "(fst (audit content) = 0 \<longrightarrow>
      analyze_and_fix content = Completed None \<and>
      run analyze_and_fix content = content \<and>
      run analyze_and_fix (run analyze_and_fix content) = content) \<and>
   (count_list content LBRACE = count_list content RBRACE \<longrightarrow>
      fix_complete content = Completed (Some content) \<and>
      run fix_complete content = content \<and>
      run fix_complete (run fix_complete content) = content)"
  by (simp add: analyze_and_fix_def fix_complete_def run_def Let_def)

theorem balanced_unchanged_witness:
  "fst (audit [LBRACE, NL, RBRACE, NL]) = 0 \<and>
   count_list [LBRACE, NL, RBRACE, NL] LBRACE = count_list [LBRACE, NL, RBRACE, NL] RBRACE \<and>
   run analyze_and_fix (run analyze_and_fix [LBRACE, NL, RBRACE, NL]) = [LBRACE, NL, RBRACE, NL] \<and>
   run fix_complete (run fix_complete [LBRACE, NL, RBRACE, NL]) = [LBRACE, NL, RBRACE, NL]"
proof -
  have a: "fst (audit [LBRACE, NL, RBRACE, NL]) = 0"
    by (simp add: audit_def)
  have b: "count_list [LBRACE, NL, RBRACE, NL] LBRACE = count_list [LBRACE, NL, RBRACE, NL] RBRACE"
    by simp
  from a b balanced_unchanged [of "[LBRACE, NL, RBRACE, NL]"] show ?thesis
    by blast
qed

text \<open>
  C8. The auditor's list of errors holds, in line order, one entry for every line (numbered
  from 1) after which the running depth is negative, with that depth, and no other entry:
  the first line where the depth goes negative is reported, and so is every later line
  for as long as the depth stays negative.
\<close>

theorem audit_errors_exact:
  "snd (audit content) =
     [(i, depth_after (readlines content) i). i \<leftarrow> [1..<Suc (length (readlines content))],
        depth_after (readlines content) i < 0]"
proof -
  let ?ls = "readlines content"
  have "[1..<Suc (length ?ls)] = map Suc [0..<length ?ls]"
    by (simp add: map_Suc_upt del: upt_Suc)
  then show ?thesis
    by (simp add: audit_def audit_loop_gen filter_map o_def map_filter_concat del: upt_Suc)
qed

theorem audit_errors_exact_witness:
  "snd (audit [RBRACE, NL, LBRACE, LBRACE, NL, RBRACE, RBRACE, RBRACE, NL, NL]) = [(1, - 1), (3, - 2), (4, - 2)]"
proof -
  have "readlines [RBRACE, NL, LBRACE, LBRACE, NL, RBRACE, RBRACE, RBRACE, NL, NL]
      = [[RBRACE, NL], [LBRACE, LBRACE, NL], [RBRACE, RBRACE, RBRACE, NL], [NL]]"
    by simp
  then show ?thesis
    using audit_errors_exact [of "[RBRACE, NL, LBRACE, LBRACE, NL, RBRACE, RBRACE, RBRACE, NL, NL]"]
    by (simp add: depth_after_def delta_def upt_conv_Cons)
qed

text \<open>
  C10. When the closing braces exceed the opening ones by \<open>n\<close>, each fixer writes the
  lines of its input (of \<open>readlines\<close>, or of \<open>split\<close>) without those at the indices
  \<open>deleted n lines\<close>, all others unchanged and in their order. Every deleted line has
  stripped content \<open>}\<close>; there are \<open>min n k\<close> of them, \<open>k\<close> the number of such
  lines; and they are the last ones: a later line with stripped content \<open>}\<close> is
  deleted too.
\<close>

theorem surplus_removal:
  assumes "count_list content LBRACE < count_list content RBRACE"
  shows
    "analyze_and_fix content = Completed (Some (concat
        (nths (readlines content) (- deleted (surplus content) (readlines content))))) \<and>
     fix_complete content = Completed (Some (join_nl
        (nths (split_nl content) (- deleted (surplus content) (split_nl content))))) \<and>
     (\<forall>ls \<in> {readlines content, split_nl content}.
        card (deleted (surplus content) ls) = min (surplus content) (lones ls) \<and>
        (\<forall>j \<in> deleted (surplus content) ls. j < length ls \<and> lone_close (ls ! j) \<and>
           (\<forall>j'. j < j' \<and> j' < length ls \<and> lone_close (ls ! j') \<longrightarrow> j' \<in> deleted (surplus content) ls)))"
proof -
  have "analyze_and_fix content = Completed (Some (concat
        (nths (readlines content) (- deleted (surplus content) (readlines content)))))"
    using assms by (simp add: analyze_and_fix_cases remove_surplus_nths)
  moreover have "fix_complete content = Completed (Some (join_nl
        (nths (split_nl content) (- deleted (surplus content) (split_nl content)))))"
    using assms by (simp add: fix_complete_def Let_def remove_surplus_nths surplus_def)
  moreover have "card (deleted n ls) = min n (lones ls) \<and>
        (\<forall>j \<in> deleted n ls. j < length ls \<and> lone_close (ls ! j) \<and>
           (\<forall>j'. j < j' \<and> j' < length ls \<and> lone_close (ls ! j') \<longrightarrow> j' \<in> deleted n ls))" for n ls
    using deleted_last [of _ n ls]
    by (auto simp: card_deleted lones_def deleted_bound deleted_lone)
  ultimately show ?thesis by blast
qed

theorem surplus_removal_witness:
  "count_list [LBRACE, NL, RBRACE, NL, 32, RBRACE, NL] LBRACE
      < count_list [LBRACE, NL, RBRACE, NL, 32, RBRACE, NL] RBRACE \<and>
   analyze_and_fix [LBRACE, NL, RBRACE, NL, 32, RBRACE, NL] = Completed (Some [LBRACE, NL, RBRACE, NL]) \<and>
   fix_complete [LBRACE, NL, RBRACE, NL, 32, RBRACE, NL] = Completed (Some [LBRACE, NL, RBRACE, NL])"
proof -
  let ?c = "[LBRACE, NL, RBRACE, NL, 32, RBRACE, NL]"
  have h: "count_list ?c LBRACE < count_list ?c RBRACE"
    by simp
  have s: "surplus ?c = 1"
    by (simp add: surplus_def)
  have r: "readlines ?c = [[LBRACE, NL], [RBRACE, NL], [32, RBRACE, NL]]"
    by simp
  have p: "split_nl ?c = [[LBRACE], [RBRACE], [32, RBRACE], []]"
    by simp
  have d1: "- deleted 1 [[LBRACE, NL], [RBRACE, NL], [32, RBRACE, NL]] = - {2}"
    by (auto simp: deleted_def lone_close_def strip_def py_isspace_def less_Suc_eq)
  have d2: "- deleted 1 [[LBRACE], [RBRACE], [32, RBRACE], []] = - {2}"
    by (auto simp: deleted_def lone_close_def strip_def py_isspace_def less_Suc_eq)
  have n1: "nths [[LBRACE, NL], [RBRACE, NL], [32, RBRACE, NL]] (- {2}) = [[LBRACE, NL], [RBRACE, NL]]"
    by (simp add: nths_Cons)
  have n2: "nths [[LBRACE], [RBRACE], [32, RBRACE], []] (- {2}) = [[LBRACE], [RBRACE], []]"
    by (simp add: nths_Cons)
  show ?thesis
    using surplus_removal [OF h] h
    by (simp only: s r p d1 d2 n1 n2) simp
qed

section \<open>Properties of the config pruner\<close>

text \<open>
  C2. For a document whose \<open>recent_folders\<close> field is an array of records with a
  \<open>path\<close> (a string, as \<open>startswith\<close> needs), the pruner writes back a document
  with the same keys in the same order, every field other than \<open>recent_folders\<close>
  as it was, and under \<open>recent_folders\<close> the array of the original entries whose path does
  not start with \<open>/test/path\<close>, in their original order.
\<close>

theorem pruner_filters_recent_folders:
  assumes "map_of kvs RECENT_FOLDERS = Some (JArr folders)"
    and "\<forall>f\<in>set folders. path_of f \<noteq> None"
  shows "\<exists>kvs'. clean_recent (JObj kvs) = Completed (Some (JObj kvs')) \<and>
           map fst kvs' = map fst kvs \<and>
           (\<forall>i<length kvs. fst (kvs ! i) \<noteq> RECENT_FOLDERS \<longrightarrow> kvs' ! i = kvs ! i) \<and>
           map_of kvs' RECENT_FOLDERS = Some (JArr (filter (\<lambda>f. \<not> blocked f) folders))"
proof -
  let ?kept = "filter (\<lambda>f. \<not> blocked f) folders"
  let ?kvs' = "AList.update RECENT_FOLDERS (JArr ?kept) kvs"
  have "clean_recent (JObj kvs) = Completed (Some (JObj ?kvs'))"
    using assms by (simp add: clean_recent_def keep_folders_filter)
  moreover have "map fst ?kvs' = map fst kvs"
    using assms(1) by (intro update_keys) (auto dest: map_of_SomeD intro: rev_image_eqI)
  moreover have "\<forall>i<length kvs. fst (kvs ! i) \<noteq> RECENT_FOLDERS \<longrightarrow> ?kvs' ! i = kvs ! i"
    by (simp add: update_frame)
  moreover have "map_of ?kvs' RECENT_FOLDERS = Some (JArr ?kept)"
    by (simp add: update_conv')
  ultimately show ?thesis by blast
qed

theorem pruner_filters_recent_folders_witness:
  "clean_recent (JObj [(str ''a'', JInt 1),
      (RECENT_FOLDERS, JArr [JObj [(PATH, JStr (str ''/test/path/x''))],
                             JObj [(str ''name'', JNull), (PATH, JStr (str ''/home''))]])]) =
   Completed (Some (JObj [(str ''a'', JInt 1),
      (RECENT_FOLDERS, JArr [JObj [(str ''name'', JNull), (PATH, JStr (str ''/home''))]])]))"
proof -
  let ?f1 = "JObj [(PATH, JStr (str ''/test/path/x''))]"
  let ?f2 = "JObj [(str ''name'', JNull), (PATH, JStr (str ''/home''))]"
  let ?kvs = "[(str ''a'', JInt 1), (RECENT_FOLDERS, JArr [?f1, ?f2])]"
  have ne: "str ''a'' \<noteq> RECENT_FOLDERS" "str ''name'' \<noteq> PATH"
    by (simp_all add: str_def RECENT_FOLDERS_def PATH_def)
  have h1: "map_of ?kvs RECENT_FOLDERS = Some (JArr [?f1, ?f2])"
    using ne by simp
  have p1: "path_of ?f1 = Some (str ''/test/path/x'')" and p2: "path_of ?f2 = Some (str ''/home'')"
    using ne by simp_all
  have h2: "\<forall>f\<in>set [?f1, ?f2]. path_of f \<noteq> None"
    using p1 p2 by simp
  have b: "blocked ?f1" "\<not> blocked ?f2"
    by (simp_all add: blocked_def p1 p2) (simp_all add: str_def TEST_PATH_def)
  obtain kvs' where w: "clean_recent (JObj ?kvs) = Completed (Some (JObj kvs'))"
    and k: "map fst kvs' = map fst ?kvs"
    and f: "\<forall>i<length ?kvs. fst (?kvs ! i) \<noteq> RECENT_FOLDERS \<longrightarrow> kvs' ! i = ?kvs ! i"
    and r: "map_of kvs' RECENT_FOLDERS = Some (JArr (filter (\<lambda>f. \<not> blocked f) [?f1, ?f2]))"
    using pruner_filters_recent_folders [OF h1 h2] by blast
  from k obtain x y where xy: "kvs' = [x, y]" "fst x = str ''a''" "fst y = RECENT_FOLDERS"
    by (cases kvs'; cases "tl kvs'") auto
  from f [rule_format, of 0] ne xy have x: "x = (str ''a'', JInt 1)" by simp
  from r xy ne b have y: "snd y = JArr [?f2]" by simp
  from w xy x y show ?thesis by (cases y) simp
qed

text \<open>
  C6. The pruner run on a document it has written writes the same document again: the
  second run removes nothing, so the number of \<open>recent_folders\<close> entries stays,
  and no surviving entry's path starts with \<open>/test/path\<close>.
\<close>

theorem pruner_idempotent:
  assumes "clean_recent data = Completed (Some data')"
  shows "clean_recent data' = Completed (Some data') \<and>
         (\<exists>kvs kept. data' = JObj kvs \<and> map_of kvs RECENT_FOLDERS = Some (JArr kept) \<and>
            (\<forall>f\<in>set kept. \<exists>p. path_of f = Some p \<and> \<not> prefix TEST_PATH p))"
proof -
  from assms obtain kvs v fs kept where d: "data = JObj kvs"
    and v: "subscript data RECENT_FOLDERS = Inr v" and fs: "iter_items v = Inr fs"
    and k: "keep_folders fs = Inr kept"
    and d': "data' = JObj (AList.update RECENT_FOLDERS (JArr kept) kvs)"
    by (auto simp: clean_recent_def split: sum.splits json.splits)
  from keep_folders_Inr [OF k] have kept: "kept = filter (\<lambda>f. \<not> blocked f) fs"
    and paths: "\<forall>f\<in>set fs. path_of f \<noteq> None" by auto
  have kp: "\<forall>f\<in>set kept. path_of f \<noteq> None" using kept paths by auto
  have nb: "\<forall>f\<in>set kept. \<not> blocked f" using kept by auto
  have "keep_folders kept = Inr (filter (\<lambda>f. \<not> blocked f) kept)"
    using kp by (rule keep_folders_filter)
  also have "filter (\<lambda>f. \<not> blocked f) kept = kept"
    using nb by (simp add: filter_id_conv)
  finally have again: "keep_folders kept = Inr kept" .
  have look: "map_of (AList.update RECENT_FOLDERS (JArr kept) kvs) RECENT_FOLDERS = Some (JArr kept)"
    by (simp add: update_conv')
  have "clean_recent data' = Completed (Some data')"
    by (simp add: d' clean_recent_def look again)
  moreover have "\<forall>f\<in>set kept. \<exists>p. path_of f = Some p \<and> \<not> prefix TEST_PATH p"
    using kp nb by (fastforce simp: blocked_def)
  ultimately show ?thesis using d' look by blast
qed

theorem pruner_idempotent_witness:
  "clean_recent (JObj [(RECENT_FOLDERS, JArr [JObj [(PATH, JStr (str ''/home''))]])]) =
     Completed (Some (JObj [(RECENT_FOLDERS, JArr [JObj [(PATH, JStr (str ''/home''))]])])) \<and>
   clean_recent (JObj [(RECENT_FOLDERS, JArr [JObj [(PATH, JStr (str ''/test/path''))]])]) =
     Completed (Some (JObj [(RECENT_FOLDERS, JArr [])])) \<and>
   clean_recent (JObj [(RECENT_FOLDERS, JArr [])]) = Completed (Some (JObj [(RECENT_FOLDERS, JArr [])]))"
proof -
  have a: "clean_recent (JObj [(RECENT_FOLDERS, JArr [JObj [(PATH, JStr (str ''/test/path''))]])]) =
     Completed (Some (JObj [(RECENT_FOLDERS, JArr [])]))"
    by (simp add: clean_recent_def is_test_path_def) (simp add: str_def TEST_PATH_def)
  have b: "clean_recent (JObj [(RECENT_FOLDERS, JArr [JObj [(PATH, JStr (str ''/home''))]])]) =
     Completed (Some (JObj [(RECENT_FOLDERS, JArr [JObj [(PATH, JStr (str ''/home''))]])]))"
    by (simp add: clean_recent_def is_test_path_def) (simp add: str_def TEST_PATH_def)
  from pruner_idempotent [OF a] a b show ?thesis by simp
qed

section \<open>Properties of the brace-depth-based rebuilder\<close>

text \<open>
  C7. Let \<open>s\<close> be the index of the line the search for the start marker finds (the
  first line that contains it) and \<open>e\<close> the first later index at which the brace depth
  summed from line \<open>s\<close> is back at zero. Then the rebuilder writes the lines before
  \<open>s\<close> unchanged, the fixed replacement block, and the lines after \<open>e\<close> unchanged:
  exactly the lines \<open>s\<close> through \<open>e\<close> are replaced.
\<close>

theorem rebuilder_splices:
  assumes "lines = readlines content"
    and "s < length lines" and "contains MARKER (lines ! s)"
    and "\<forall>i<s. \<not> contains MARKER (lines ! i)"
    and "s < e" and "e < length lines" and "depth_from lines s e = 0"
    and "\<forall>i. s < i \<and> i < e \<longrightarrow> depth_from lines s i \<noteq> 0"
  shows "rebuild_favorites_section content =
           Completed (Some (concat (take s lines @ [new_section] @ drop (Suc e) lines)))"
proof -
  have st: "find_start 0 lines = Some s"
    using find_start_Some [OF assms(2,3,4), of 0] by simp
  have "find_end s s 0 (drop s lines) = Some (s + (e - s))"
  proof (rule find_end_Some)
    show "e - s < length (drop s lines)" using assms(5,6) by simp
    show "0 + sum_list (map delta (take (Suc (e - s)) (drop s lines))) = 0"
      using assms(5,7) by (simp add: depth_from_def Suc_diff_le)
    show "s < s + (e - s)" using assms(5) by simp
    show "\<forall>j<e - s. s < s + j \<longrightarrow> 0 + sum_list (map delta (take (Suc j) (drop s lines))) \<noteq> 0"
    proof (intro allI impI)
      fix j assume "j < e - s" "s < s + j"
      then have "s < s + j \<and> s + j < e" by simp
      with assms(8) have "depth_from lines s (s + j) \<noteq> 0" by blast
      then show "0 + sum_list (map delta (take (Suc j) (drop s lines))) \<noteq> 0"
        by (simp add: depth_from_def Suc_diff_le)
    qed
  qed
  then have en: "find_end s s 0 (drop s lines) = Some e"
    using assms(5) by simp
  show ?thesis
    by (simp add: rebuild_favorites_section_def rebuild_lines_def assms(1) [symmetric] st en)
qed

theorem rebuilder_splices_witness:
  "rebuild_favorites_section (ln (str ''a'') @ ln MARKER @ ln [RBRACE] @ ln (str ''z'')) =
     Completed (Some (ln (str ''a'') @ new_section @ ln (str ''z'')))"
proof -
  let ?c = "ln (str ''a'') @ ln MARKER @ ln [RBRACE] @ ln (str ''z'')"
  let ?ls = "[ln (str ''a''), ln MARKER, ln [RBRACE], ln (str ''z'')]"
  have "readlines (ln (str ''z'') @ []) = ln (str ''z'') # readlines []"
    by (rule readlines_ln) (simp add: str_def)
  then have "readlines (ln [RBRACE] @ ln (str ''z'')) = [ln [RBRACE], ln (str ''z'')]"
    using readlines_ln [of "[RBRACE]" "ln (str ''z'')"] by simp
  then have "readlines (ln MARKER @ ln [RBRACE] @ ln (str ''z'')) = [ln MARKER, ln [RBRACE], ln (str ''z'')]"
    using readlines_ln [OF NL_notin_MARKER, of "ln [RBRACE] @ ln (str ''z'')"] by simp
  then have r: "?ls = readlines ?c"
    using readlines_ln [of "str ''a''" "ln MARKER @ ln [RBRACE] @ ln (str ''z'')"]
    by (simp add: str_def)
  have m: "contains MARKER (?ls ! 1)"
    by (simp add: contains_prefix ln_def)
  have n: "\<forall>i<1. \<not> contains MARKER (?ls ! i)"
    by (simp add: ln_def str_def MARKER_def)
  have d: "depth_from ?ls 1 2 = 0"
    by (simp add: depth_from_def delta_ln_MARKER numeral_2_eq_2) (simp add: delta_def ln_def)
  have f: "\<forall>i. 1 < i \<and> i < 2 \<longrightarrow> depth_from ?ls 1 i \<noteq> 0"
    by auto
  have "rebuild_favorites_section ?c =
           Completed (Some (concat (take 1 ?ls @ [new_section] @ drop (Suc 2) ?ls)))"
    by (rule rebuilder_splices [OF r _ m n _ _ d f]) simp_all
  then show ?thesis
    by (simp add: numeral_2_eq_2)
qed

text \<open>
  C9. When no line contains the start marker, or the brace depth summed from the start
  line is at zero at no later line, the script exits with status 1 before its write step:
  nothing is written and the file keeps its content.
\<close>

theorem rebuilder_exits_before_write:
  assumes "lines = readlines content"
    and "(\<forall>l\<in>set lines. \<not> contains MARKER l) \<or>
         (\<exists>s<length lines. contains MARKER (lines ! s) \<and> (\<forall>i<s. \<not> contains MARKER (lines ! i)) \<and>
            (\<forall>e. s < e \<and> e < length lines \<longrightarrow> depth_from lines s e \<noteq> 0))"
  shows "rebuild_favorites_section content = Exited 1 \<and>
         written (rebuild_favorites_section content) = None \<and>
         run rebuild_favorites_section content = content"
proof -
  have "rebuild_lines lines = Exited 1"
    using assms(2)
  proof
    assume "\<forall>l\<in>set lines. \<not> contains MARKER l"
    then show ?thesis by (simp add: rebuild_lines_def find_start_None)
  next
    assume "\<exists>s<length lines. contains MARKER (lines ! s) \<and> (\<forall>i<s. \<not> contains MARKER (lines ! i)) \<and>
            (\<forall>e. s < e \<and> e < length lines \<longrightarrow> depth_from lines s e \<noteq> 0)"
    then obtain s where s: "s < length lines" "contains MARKER (lines ! s)"
      "\<forall>i<s. \<not> contains MARKER (lines ! i)"
      and ne: "\<forall>e. s < e \<and> e < length lines \<longrightarrow> depth_from lines s e \<noteq> 0"
      by blast
    have st: "find_start 0 lines = Some s"
      using find_start_Some [OF s, of 0] by simp
    have "find_end s s 0 (drop s lines) = None"
    proof (rule find_end_None, intro allI impI)
      fix j assume "j < length (drop s lines)" "s < s + j"
      then have "s < s + j \<and> s + j < length lines" by simp
      with ne have "depth_from lines s (s + j) \<noteq> 0" by blast
      then show "0 + sum_list (map delta (take (Suc j) (drop s lines))) \<noteq> 0"
        by (simp add: depth_from_def Suc_diff_le)
    qed
    with st show ?thesis by (simp add: rebuild_lines_def)
  qed
  then show ?thesis
    by (simp add: rebuild_favorites_section_def assms(1) [symmetric] run_def)
qed

theorem rebuilder_exits_before_write_witness:
  "rebuild_favorites_section (ln (str ''a'') @ ln [RBRACE]) = Exited 1 \<and>
   run rebuild_favorites_section (ln (str ''a'') @ ln [RBRACE]) = ln (str ''a'') @ ln [RBRACE] \<and>
   rebuild_favorites_section (ln MARKER @ ln (str ''z'')) = Exited 1 \<and>
   run rebuild_favorites_section (ln MARKER @ ln (str ''z'')) = ln MARKER @ ln (str ''z'')"
proof -
  have r1: "[ln (str ''a''), ln [RBRACE]] = readlines (ln (str ''a'') @ ln [RBRACE])"
    using readlines_ln [of "str ''a''" "ln [RBRACE]"] readlines_ln [of "[RBRACE]" "[]"]
    by (simp add: str_def)
  have h1: "(\<forall>l\<in>set [ln (str ''a''), ln [RBRACE]]. \<not> contains MARKER l) \<or>
         (\<exists>s<length [ln (str ''a''), ln [RBRACE]]. contains MARKER ([ln (str ''a''), ln [RBRACE]] ! s) \<and>
            (\<forall>i<s. \<not> contains MARKER ([ln (str ''a''), ln [RBRACE]] ! i)) \<and>
            (\<forall>e. s < e \<and> e < length [ln (str ''a''), ln [RBRACE]] \<longrightarrow>
               depth_from [ln (str ''a''), ln [RBRACE]] s e \<noteq> 0))"
    by (rule disjI1) (simp add: ln_def str_def MARKER_def)
  let ?ls = "[ln MARKER, ln (str ''z'')]"
  have r2: "?ls = readlines (ln MARKER @ ln (str ''z''))"
    using readlines_ln [OF NL_notin_MARKER, of "ln (str ''z'')"] readlines_ln [of "str ''z''" "[]"]
    by (simp add: str_def)
  have d: "depth_from ?ls 0 (Suc 0) \<noteq> 0"
    by (simp add: depth_from_def delta_ln_MARKER numeral_2_eq_2) (simp add: delta_def ln_def str_def)
  have "\<forall>e. 0 < e \<and> e < length ?ls \<longrightarrow> depth_from ?ls 0 e \<noteq> 0"
  proof (intro allI impI)
    fix e assume "0 < e \<and> e < length ?ls"
    then have "e = Suc 0" by simp
    with d show "depth_from ?ls 0 e \<noteq> 0" by simp
  qed
  then have "\<exists>s<length ?ls. contains MARKER (?ls ! s) \<and> (\<forall>i<s. \<not> contains MARKER (?ls ! i)) \<and>
            (\<forall>e. s < e \<and> e < length ?ls \<longrightarrow> depth_from ?ls s e \<noteq> 0)"
    by (intro exI [of _ 0]) (simp add: contains_prefix ln_def)
  then have h2: "(\<forall>l\<in>set ?ls. \<not> contains MARKER l) \<or>
         (\<exists>s<length ?ls. contains MARKER (?ls ! s) \<and> (\<forall>i<s. \<not> contains MARKER (?ls ! i)) \<and>
            (\<forall>e. s < e \<and> e < length ?ls \<longrightarrow> depth_from ?ls s e \<noteq> 0))"
    by (rule disjI2)
  from rebuilder_exits_before_write [OF r1 h1] rebuilder_exits_before_write [OF r2 h2]
  show ?thesis by simp
qed

section \<open>Properties of the regex scripts and of the exit statuses\<close>

text \<open>
  C4. When its pattern has no match in the text read, the regex-based section replacer
  writes back the text it read, and so does the pattern-based full-section rebuilder:
  the file's text is unchanged on a failed match.
\<close>

theorem no_match_unchanged:
  "(\<not> has_match pattern_favorites content \<longrightarrow>
      fix_favorites content = Completed (Some content) \<and> run fix_favorites content = content) \<and>
   (\<not> has_match pattern_final content \<longrightarrow>
      fix_final content = Completed (Some content) \<and> run fix_final content = content)"
  by (simp add: fix_favorites_def fix_final_def run_def re_sub_no_match
      match_favorites_None match_final_None)

theorem no_match_unchanged_witness:
  "\<not> has_match pattern_favorites (str ''Text { }'') \<and>
   \<not> has_match pattern_final (str ''Text { }'') \<and>
   fix_favorites (str ''Text { }'') = Completed (Some (str ''Text { }'')) \<and>
   fix_final (str ''Text { }'') = Completed (Some (str ''Text { }''))"
proof -
  have a: "\<not> has_match pattern_favorites (str ''Text { }'')"
    by (simp add: str_def pattern_favorites_def rmatch_lit_head rmatch_lit_Nil)
  have b: "\<not> has_match pattern_final (str ''Text { }'')"
    by (simp add: str_def pattern_final_def rmatch_lit_head rmatch_lit_Nil)
  from a b no_match_unchanged [of "str ''Text { }''"] show ?thesis
    by blast
qed

text \<open>
  C3, as the code has it. The two brace fixers and the two regex scripts always run to
  their end and end with status 0. The config pruner never calls \<open>exit\<close>: it ends with
  status 0 exactly when it runs to its end and writes the document (an exception that
  escapes is Python's own failure status). The brace-depth-based rebuilder ends with
  status 1 when the start marker is found on no line and when the end of the section is
  not found, and with status 0 when it runs to its end.
\<close>

theorem exit_statuses:
  "exit_status (analyze_and_fix content) = 0 \<and>
   exit_status (fix_complete content) = 0 \<and>
   exit_status (fix_favorites content) = 0 \<and>
   exit_status (fix_final content) = 0 \<and>
   (\<forall>n. clean_recent data \<noteq> Exited n) \<and>
   (exit_status (clean_recent data) = 0 \<longleftrightarrow> (\<exists>w. clean_recent data = Completed (Some w))) \<and>
   exit_status (rebuild_favorites_section content) =
     (case find_start 0 (readlines content) of
        None \<Rightarrow> 1
      | Some s \<Rightarrow>
          (case find_end s s 0 (drop s (readlines content)) of None \<Rightarrow> 1 | Some e \<Rightarrow> 0))"
proof -
  have "exit_status (analyze_and_fix content) = 0"
    by (simp add: analyze_and_fix_def Let_def)
  moreover have "exit_status (fix_complete content) = 0"
    by (simp add: fix_complete_def Let_def)
  moreover have "exit_status (fix_favorites content) = 0"
    by (simp add: fix_favorites_def)
  moreover have "exit_status (fix_final content) = 0"
    by (simp add: fix_final_def)
  moreover have "\<forall>n. clean_recent data \<noteq> Exited n"
    by (simp add: clean_recent_def split: sum.splits json.splits)
  moreover have "exit_status (clean_recent data) = 0 \<longleftrightarrow> (\<exists>w. clean_recent data = Completed (Some w))"
    by (simp add: clean_recent_def split: sum.splits json.splits)
  moreover have "exit_status (rebuild_favorites_section content) =
     (case find_start 0 (readlines content) of
        None \<Rightarrow> 1
      | Some s \<Rightarrow>
          (case find_end s s 0 (drop s (readlines content)) of None \<Rightarrow> 1 | Some e \<Rightarrow> 0))"
    by (simp add: rebuild_favorites_section_def rebuild_lines_def split: option.splits)
  ultimately show ?thesis by blast
qed

theorem exit_statuses_witness:
  "exit_status (analyze_and_fix [RBRACE]) = 0 \<and>
   exit_status (fix_complete [RBRACE]) = 0 \<and>
   exit_status (fix_favorites [RBRACE]) = 0 \<and>
   exit_status (fix_final [RBRACE]) = 0 \<and>
   exit_status (clean_recent JNull) = 1 \<and>
   exit_status (rebuild_favorites_section [RBRACE]) = 1"
proof -
  have "clean_recent JNull = Raised TypeError"
    by (simp add: clean_recent_def)
  moreover have "find_start 0 (readlines [RBRACE]) = None"
    by (simp add: MARKER_def str_def)
  ultimately show ?thesis
    using exit_statuses [of "[RBRACE]" JNull] by simp
qed

text \<open>
  On the empty text the brace-depth-based rebuilder finds no start marker and calls
  \<open>exit(1)\<close>: a nonzero exit code of its own for a failure mode.
\<close>

theorem exit_code_counterexample:
  "rebuild_favorites_section [] = Exited 1 \<and> exit_status (rebuild_favorites_section []) \<noteq> 0"
  by (simp add: rebuild_favorites_section_def rebuild_lines_def)

end
